theory Spec2Isabelle
  imports Complex_Main
begin

section \<open>Python strings\<close>

text \<open>
  A Python \<open>str\<close> is a sequence of Unicode code points; \<open>len\<close>, \<open>in\<close>, \<open>split\<close>,
  \<open>strip\<close>, \<open>lower\<close> and \<open>upper\<close> all work on code points. A string is therefore a
  list of code points (natural numbers); \<open>str\<close> reads an ASCII literal.
\<close>

type_synonym pystr = "nat list"

definition str :: "string \<Rightarrow> pystr" where
  "str cs = map of_char cs"

definition ascii :: "pystr \<Rightarrow> bool" where
  "ascii s = list_all (\<lambda>c. c < 128) s"

text \<open>\<open>str.isspace\<close> of one code point; the class \<open>\s\<close> of \<open>re\<close> on \<open>str\<close> patterns
  is the same set.\<close>

definition isspace :: "nat \<Rightarrow> bool" where
  "isspace c = ((9 \<le> c \<and> c \<le> 13) \<or> (28 \<le> c \<and> c \<le> 32) \<or> c = 133 \<or> c = 160
     \<or> c = 5760 \<or> (8192 \<le> c \<and> c \<le> 8202) \<or> c = 8232 \<or> c = 8233 \<or> c = 8239
     \<or> c = 8287 \<or> c = 12288)"

text \<open>
  The case mappings. ASCII letters map as usual. Of the code points beyond ASCII, the
  tables hold those whose \<open>lower()\<close> or \<open>upper()\<close> contains an ASCII letter (Unicode's
  special casing: sharp s, dotless i, long s, the Kelvin sign, the ligatures, ...), which
  are the ones that can meet the ASCII patterns of this program. Every other code point
  is left as it is: its case mapping is not modelled.
\<close>

definition lower_special :: "(nat \<times> pystr) list" where
  "lower_special = [(304, [105, 775]), (7838, [223]), (8490, [107])]"

definition upper_special :: "(nat \<times> pystr) list" where
  "upper_special =
     [(223, [83, 83]), (305, [73]), (329, [700, 78]), (383, [83]), (496, [74, 780]),
      (7830, [72, 817]), (7831, [84, 776]), (7832, [87, 778]), (7833, [89, 778]),
      (7834, [65, 702]), (64256, [70, 70]), (64257, [70, 73]), (64258, [70, 76]),
      (64259, [70, 70, 73]), (64260, [70, 70, 76]), (64261, [83, 84]), (64262, [83, 84])]"

definition lower_cp :: "nat \<Rightarrow> pystr" where
  "lower_cp c =
     (if 65 \<le> c \<and> c \<le> 90 then [c + 32]
      else case map_of lower_special c of Some s \<Rightarrow> s | None \<Rightarrow> [c])"

definition upper_cp :: "nat \<Rightarrow> pystr" where
  "upper_cp c =
     (if 97 \<le> c \<and> c \<le> 122 then [c - 32]
      else case map_of upper_special c of Some s \<Rightarrow> s | None \<Rightarrow> [c])"

definition lower :: "pystr \<Rightarrow> pystr" where
  "lower s = concat (map lower_cp s)"

definition upper :: "pystr \<Rightarrow> pystr" where
  "upper s = concat (map upper_cp s)"

text \<open>What \<open>upper()\<close> does to an ASCII code point.\<close>

definition ascii_upper :: "nat \<Rightarrow> nat" where
  "ascii_upper c = (if 97 \<le> c \<and> c \<le> 122 then c - 32 else c)"

text \<open>\<open>s.strip()\<close>: leading and trailing whitespace removed.\<close>

definition strip :: "pystr \<Rightarrow> pystr" where
  "strip s = rev (dropWhile isspace (rev (dropWhile isspace s)))"

text \<open>\<open>s.split()\<close>: the maximal runs of non-whitespace, in order. The first argument
  is the word being read.\<close>

fun split_ws :: "pystr \<Rightarrow> pystr \<Rightarrow> pystr list" where
  "split_ws w [] = (if w = [] then [] else [w])"
| "split_ws w (c # cs) =
     (if isspace c then (if w = [] then [] else [w]) @ split_ws [] cs
      else split_ws (w @ [c]) cs)"

definition str_split :: "pystr \<Rightarrow> pystr list" where
  "str_split s = split_ws [] s"

text \<open>\<open>s.split(sep)\<close> for a separator of one code point: every field, empty ones too.\<close>

fun split_at :: "nat \<Rightarrow> pystr \<Rightarrow> pystr \<Rightarrow> pystr list" where
  "split_at sep w [] = [w]"
| "split_at sep w (c # cs) =
     (if c = sep then w # split_at sep [] cs else split_at sep (w @ [c]) cs)"

definition str_split_sep :: "nat \<Rightarrow> pystr \<Rightarrow> pystr list" where
  "str_split_sep sep s = split_at sep [] s"

text \<open>\<open>s.replace(a, b)\<close> for single code points.\<close>

definition replace :: "nat \<Rightarrow> nat \<Rightarrow> pystr \<Rightarrow> pystr" where
  "replace a b s = map (\<lambda>c. if c = a then b else c) s"

text \<open>\<open>x in s\<close>: \<open>x\<close> occurs in \<open>s\<close> as a contiguous substring.\<close>

definition startswith :: "pystr \<Rightarrow> pystr \<Rightarrow> bool" where
  "startswith s x = (take (length x) s = x)"

fun contains :: "pystr \<Rightarrow> pystr \<Rightarrow> bool" where
  "contains [] x = (x = [])"
| "contains (c # cs) x = (startswith (c # cs) x \<or> contains cs x)"

section \<open>Regular expressions\<close>

text \<open>
  The fragment of \<open>re\<close> that the patterns of chatbot.py are written in: literals,
  alternation, concatenation, \<open>(...)?\<close>, a greedy \<open>+\<close> over a character class, and
  one capturing group. \<open>rmatch r (s, g)\<close> lists, in the order in which the backtracking
  matcher of \<open>re\<close> tries them, the ways \<open>r\<close> matches a prefix of \<open>s\<close>: what is left of
  \<open>s\<close>, and the text of the capturing group (\<open>g\<close> before the match).
\<close>

datatype cclass = Space | NotQuestionMark | Letter

fun in_class :: "cclass \<Rightarrow> nat \<Rightarrow> bool" where
  "in_class Space c = isspace c"
| "in_class NotQuestionMark c = (c \<noteq> 63)"
| "in_class Letter c = ((65 \<le> c \<and> c \<le> 90) \<or> (97 \<le> c \<and> c \<le> 122))"

datatype regex =
    Lit pystr
  | Alt regex regex
  | Cat regex regex
  | Opt regex
  | Plus cclass
  | Group regex

fun rmatch :: "regex \<Rightarrow> pystr \<times> pystr option \<Rightarrow> (pystr \<times> pystr option) list" where
  "rmatch (Lit w) (s, g) = (if startswith s w then [(drop (length w) s, g)] else [])"
| "rmatch (Alt a b) st = rmatch a st @ rmatch b st"
| "rmatch (Cat a b) st = concat (map (rmatch b) (rmatch a st))"
| "rmatch (Opt a) st = rmatch a st @ [st]"
| "rmatch (Plus k) (s, g) =
     map (\<lambda>n. (drop n s, g)) (rev [1 ..< Suc (length (takeWhile (in_class k) s))])"
| "rmatch (Group a) (s, g) =
     map (\<lambda>(r, _). (r, Some (take (length s - length r) s))) (rmatch a (s, g))"

text \<open>\<open>re.search(r, s)\<close>: the first match at the leftmost position that has one; the
  result is the text of the capturing group (\<open>None\<close> inside when the pattern has no
  group), or \<open>None\<close> when nothing matches.\<close>

fun re_search :: "regex \<Rightarrow> pystr \<Rightarrow> pystr option option" where
  "re_search r [] = (case rmatch r ([], None) of [] \<Rightarrow> None | (_, g) # _ \<Rightarrow> Some g)"
| "re_search r (c # cs) =
     (case rmatch r (c # cs, None) of [] \<Rightarrow> re_search r cs | (_, g) # _ \<Rightarrow> Some g)"

definition re_matches :: "regex \<Rightarrow> pystr \<Rightarrow> bool" where
  "re_matches r s = (re_search r s \<noteq> None)"

text \<open>\<open>re.findall(r'[a-zA-Z]+', s)\<close>: the maximal runs of ASCII letters, in order.\<close>

fun letter_runs :: "pystr \<Rightarrow> pystr \<Rightarrow> pystr list" where
  "letter_runs w [] = (if w = [] then [] else [w])"
| "letter_runs w (c # cs) =
     (if in_class Letter c then letter_runs (w @ [c]) cs
      else (if w = [] then [] else [w]) @ letter_runs [] cs)"

definition findall_letters :: "pystr \<Rightarrow> pystr list" where
  "findall_letters s = letter_runs [] s"

section \<open>classify_input_type\<close>

datatype intent = Question | Symptoms | Disease

text \<open>The list \<open>question_patterns\<close> of \<open>classify_input_type\<close>, in its order. The
  groups of these patterns are never read, so they are written without \<open>Group\<close>.\<close>

definition classify_patterns :: "regex list" where
  "classify_patterns =
     [Cat (Lit (str ''what '')) (Alt (Lit (str ''are'')) (Lit (str ''is''))),
      Cat (Lit (str ''how '')) (Alt (Lit (str ''to'')) (Alt (Lit (str ''do'')) (Lit (str ''can'')))),
      Cat (Lit (str ''why '')) (Alt (Lit (str ''is'')) (Lit (str ''are''))),
      Cat (Lit (str ''when '')) (Alt (Lit (str ''should'')) (Lit (str ''do''))),
      Cat (Lit (str ''where '')) (Alt (Lit (str ''can'')) (Lit (str ''do''))),
      Cat (Lit (str ''who '')) (Alt (Lit (str ''should'')) (Lit (str ''can''))),
      Lit (str ''can you''),
      Lit (str ''could you''),
      Lit (str ''would you''),
      Lit (str ''explain''),
      Lit (str ''tell me about'')]"

definition is_question :: "pystr \<Rightarrow> bool" where
  "is_question user_input =
     list_ex (\<lambda>p. re_matches p (strip (lower user_input))) classify_patterns"

definition classify_input_type :: "pystr \<Rightarrow> intent" where
  "classify_input_type user_input =
     (if user_input = [] then Question
      else
        let has_question_mark = (63 \<in> set user_input);
            has_commas = (44 \<in> set user_input);
            is_short_phrase = (length (str_split user_input) \<le> 5 \<and> \<not> is_question user_input)
        in if has_question_mark \<or> is_question user_input then Question
           else if has_commas \<and> is_short_phrase then Symptoms
           else if \<not> is_question user_input \<and> length (str_split user_input) \<le> 3 then Disease
           else Question)"

section \<open>The reference tables\<close>

text \<open>
  A cell of a text column holds a string or is missing (pandas' NaN).
\<close>

datatype cell = Text pystr | NaN

text \<open>
  The augmented symptom matrix. \<open>aug_columns\<close> are the names of the columns other than
  \<open>diseases\<close> and \<open>diseases_clean\<close> (the list \<open>symptom_columns\<close> of the source), in
  table order; a row is its \<open>diseases\<close> cell and its numeric cells under these columns,
  one per column (a DataFrame is rectangular, and \<open>read_csv\<close> keeps column names
  distinct). \<open>aug_clean\<close> says whether \<open>preprocess_datasets\<close> has added the column
  \<open>diseases_clean\<close>, which holds \<open>diseases.lower().strip()\<close>.
\<close>

record aug_df =
  aug_columns :: "pystr list"
  aug_rows :: "(pystr \<times> real list) list"
  aug_clean :: bool

text \<open>
  The precaution table and the symptom catalogue: a \<open>Disease\<close> column, and text
  columns (\<open>td_columns\<close>, in table order) with one cell each per row. \<open>td_clean\<close> says
  whether the column \<open>Disease_clean\<close> (\<open>Disease.lower().strip()\<close>) is there.
\<close>

record text_df =
  td_columns :: "pystr list"
  td_rows :: "(pystr \<times> cell list) list"
  td_clean :: bool

text \<open>The FAQ table: rows of (question, answer); \<open>faq_clean\<close> says whether the column
  \<open>question_clean\<close> (\<open>question.lower().strip()\<close>, missing where the question is) is
  there.\<close>

record faq_df =
  faq_rows :: "(cell \<times> cell) list"
  faq_clean :: bool

definition clean_name :: "pystr \<Rightarrow> pystr" where
  "clean_name s = strip (lower s)"

definition question_clean_of :: "cell \<Rightarrow> cell" where
  "question_clean_of q = (case q of Text t \<Rightarrow> Text (clean_name t) | NaN \<Rightarrow> NaN)"

datatype py_error = ValueError | ReError

section \<open>IEEE doubles\<close>

text \<open>
  A Python \<open>float\<close> is an IEEE 754 double, and every operation on floats rounds its
  exact result to the nearest double, ties to the even significand. A double is modelled
  as the real number it stands for, and \<open>fl\<close> is the rounding: \<open>binade n x\<close> is the
  exponent \<open>e\<close> with \<open>2 ^ e \<le> x < 2 ^ (e + 1)\<close> (found in at most \<open>n\<close> steps), and a
  double of that binade is a multiple of \<open>2 ^ (e - 52)\<close>. Overflow, subnormal numbers,
  infinities and NaN are not modelled: the scores of this program are far from them.
\<close>

fun binade :: "nat \<Rightarrow> real \<Rightarrow> int" where
  "binade 0 x = 0"
| "binade (Suc n) x =
     (if 2 \<le> x then binade n (x / 2) + 1
      else if x < 1 then binade n (x * 2) - 1
      else 0)"

definition pow2 :: "int \<Rightarrow> real" where
  "pow2 e = (if 0 \<le> e then 2 ^ nat e else 1 / 2 ^ nat (- e))"

definition round_half_even :: "real \<Rightarrow> int" where
  "round_half_even x =
     (if x - of_int \<lfloor>x\<rfloor> < 1 / 2 then \<lfloor>x\<rfloor>
      else if 1 / 2 < x - of_int \<lfloor>x\<rfloor> then \<lfloor>x\<rfloor> + 1
      else if even \<lfloor>x\<rfloor> then \<lfloor>x\<rfloor> else \<lfloor>x\<rfloor> + 1)"

definition fl :: "real \<Rightarrow> real" where
  "fl x =
     (if x = 0 then 0
      else sgn x * of_int (round_half_even (\<bar>x\<bar> / pow2 (binade 1100 \<bar>x\<bar> - 52)))
             * pow2 (binade 1100 \<bar>x\<bar> - 52))"

text \<open>The operations on doubles: \<open>a + b\<close>, \<open>a * b\<close>, \<open>a / b\<close> and \<open>sqrt\<close>. A float
  literal such as \<open>0.2\<close> is \<open>fl (2 / 10)\<close>, and the true division of two integers is the
  rounded quotient.\<close>

definition fadd :: "real \<Rightarrow> real \<Rightarrow> real" where
  "fadd a b = fl (a + b)"

definition fmul :: "real \<Rightarrow> real \<Rightarrow> real" where
  "fmul a b = fl (a * b)"

definition fdiv :: "real \<Rightarrow> real \<Rightarrow> real" where
  "fdiv a b = fl (a / b)"

definition fsqrt :: "real \<Rightarrow> real" where
  "fsqrt a = fl (sqrt a)"

section \<open>find_question_answer\<close>

text \<open>The list \<open>question_patterns\<close> of \<open>find_question_answer\<close>.\<close>

definition what_is_are :: regex where
  "what_is_are = Cat (Lit (str ''what '')) (Alt (Lit (str ''are'')) (Lit (str ''is'')))"

definition faq_patterns :: "regex list" where
  "faq_patterns =
     [Cat what_is_are (Cat (Lit (str '' '')) (Cat (Opt (Lit (str ''the '')))
        (Cat (Alt (Lit (str ''symptoms'')) (Lit (str ''signs''))) (Lit (str '' of''))))),
      Cat what_is_are (Cat (Lit (str '' '')) (Cat (Opt (Lit (str ''the '')))
        (Cat (Alt (Lit (str ''causes'')) (Lit (str ''reason''))) (Lit (str '' of''))))),
      Cat what_is_are (Cat (Lit (str '' '')) (Cat (Opt (Lit (str ''the '')))
        (Cat (Alt (Lit (str ''treatment'')) (Lit (str ''remedy''))) (Lit (str '' for''))))),
      Cat (Lit (str ''how '')) (Cat (Alt (Lit (str ''to'')) (Lit (str ''do'')))
        (Cat (Lit (str '' '')) (Alt (Lit (str ''treat'')) (Alt (Lit (str ''handle''))
           (Lit (str ''manage'')))))),
      Cat (Lit (str ''what '')) (Alt (Lit (str ''is'')) (Lit (str ''are'')))]"

definition threshold :: real where
  "threshold = fl (4 / 10)"

text \<open>
  The score of one FAQ row (the body of the loop up to the comparison), accumulated in
  doubles as the code does: \<open>score = 0\<close>, then \<open>score += 0.3\<close>, \<open>score += overlap /
  len(question_words)\<close>, and \<open>score += 0.2\<close> once for each disease term found, in the
  order of the terms. \<open>question_words\<close> is the set of words of the question, kept as a
  list without repetitions; \<open>faq_q\<close> is the lower-cased question of the row.
\<close>

definition faq_score :: "bool \<Rightarrow> pystr list \<Rightarrow> pystr list \<Rightarrow> pystr \<Rightarrow> real" where
  "faq_score is_symptom_question question_words disease_terms faq_q =
     (let score = 0;
          score = (if is_symptom_question \<and>
                      (contains faq_q (str ''symptom'') \<or> contains faq_q (str ''sign''))
                   then fadd score (fl (3 / 10)) else score);
          faq_words = remdups (str_split faq_q);
          score = (if question_words \<noteq> [] \<and> faq_words \<noteq> []
                   then fadd score
                          (fdiv (real (length (filter (\<lambda>w. w \<in> set faq_words) question_words)))
                                (real (length question_words)))
                   else score)
      in fold (\<lambda>term score. if contains faq_q term then fadd score (fl (2 / 10)) else score)
           disease_terms score)"

definition faq_question_lower :: "cell \<times> cell \<Rightarrow> pystr" where
  "faq_question_lower row = (case fst row of Text t \<Rightarrow> lower t | NaN \<Rightarrow> [])"

text \<open>The loop over the rows, from the state (best_match, best_score): a row with an
  empty question is skipped, the best match is replaced on a strictly higher score, and
  the loop stops once the best score is above 0.9.\<close>

fun faq_scan :: "(pystr \<Rightarrow> real) \<Rightarrow> (cell \<times> cell) list \<Rightarrow>
    (cell \<times> cell) option \<times> real \<Rightarrow> (cell \<times> cell) option \<times> real" where
  "faq_scan score [] (best_match, best_score) = (best_match, best_score)"
| "faq_scan score (row # rest) (best_match, best_score) =
     (if faq_question_lower row = [] then faq_scan score rest (best_match, best_score)
      else if score (faq_question_lower row) > best_score
        then (if score (faq_question_lower row) > fl (9 / 10)
              then (Some row, score (faq_question_lower row))
              else faq_scan score rest (Some row, score (faq_question_lower row)))
        else faq_scan score rest (best_match, best_score))"

definition question_score :: "pystr \<Rightarrow> pystr \<Rightarrow> real" where
  "question_score question =
     (let question_clean = strip (lower question);
          is_symptom_question = list_ex (\<lambda>p. re_matches p question_clean) faq_patterns;
          question_words = remdups (str_split question_clean);
          disease_terms = filter (\<lambda>term. length term > 4) (findall_letters question_clean)
      in faq_score is_symptom_question question_words disease_terms)"

definition find_question_answer :: "pystr \<Rightarrow> faq_df option \<Rightarrow> (cell \<times> cell) option" where
  "find_question_answer question faq =
     (case faq of
        None \<Rightarrow> None
      | Some df \<Rightarrow>
          if faq_rows df = [] then None
          else
            let (best_match, best_score) =
                  faq_scan (question_score question) (faq_rows df) (None, 0)
            in if best_score > threshold then best_match else None)"

section \<open>predict_disease_from_symptoms\<close>

text \<open>
  \<open>sklearn.metrics.pairwise.cosine_similarity([q], Y)[0]\<close>, in doubles: both arguments
  are validated (an array with no row or no column is a ValueError), every row is divided
  by its Euclidean norm (a zero norm is replaced by 1, so a zero row stays zero), and the
  scores are the dot products of the normalised rows. Sums are accumulated from left to
  right.
\<close>

definition l2_norm :: "real list \<Rightarrow> real" where
  "l2_norm v = fsqrt (fold (\<lambda>x acc. fadd acc (fmul x x)) v 0)"

definition normalize :: "real list \<Rightarrow> real list" where
  "normalize v = map (\<lambda>x. fdiv x (if l2_norm v = 0 then 1 else l2_norm v)) v"

definition dot :: "real list \<Rightarrow> real list \<Rightarrow> real" where
  "dot u v = fold (\<lambda>(x, y) acc. fadd acc (fmul x y)) (zip u v) 0"

definition cosine :: "real list \<Rightarrow> real list \<Rightarrow> real" where
  "cosine u v = dot (normalize u) (normalize v)"

definition cosine_similarity :: "real list \<Rightarrow> real list list \<Rightarrow> py_error + real list" where
  "cosine_similarity q Y =
     (if q = [] \<or> Y = [] then Inl ValueError else Inr (map (cosine q) Y))"

text \<open>\<open>numpy.argmax\<close>: the index of the first occurrence of the maximum. \<open>argmax_from\<close>
  scans from index \<open>i\<close> with the best index and value so far.\<close>

fun argmax_from :: "nat \<Rightarrow> real \<Rightarrow> nat \<Rightarrow> real list \<Rightarrow> nat" where
  "argmax_from best_idx best i [] = best_idx"
| "argmax_from best_idx best i (x # xs) =
     (if x > best then argmax_from i x (Suc i) xs else argmax_from best_idx best (Suc i) xs)"

definition argmax :: "real list \<Rightarrow> nat" where
  "argmax xs = (case xs of [] \<Rightarrow> 0 | x # rest \<Rightarrow> argmax_from 0 x 1 rest)"

text \<open>\<open>xs.index(x)\<close> for an \<open>x\<close> that is in \<open>xs\<close>: its first position.\<close>

fun index :: "'a list \<Rightarrow> 'a \<Rightarrow> nat" where
  "index [] x = 0"
| "index (y # ys) x = (if y = x then 0 else Suc (index ys x))"

definition symptom_clean :: "pystr \<Rightarrow> pystr" where
  "symptom_clean symptom = replace 32 95 (strip (lower symptom))"

text \<open>The loop that builds \<open>query_vector\<close>.\<close>

fun build_query :: "pystr list \<Rightarrow> pystr list \<Rightarrow> real list \<Rightarrow> real list" where
  "build_query symptom_columns [] query_vector = query_vector"
| "build_query symptom_columns (symptom # rest) query_vector =
     (if symptom_clean symptom \<in> set symptom_columns
      then build_query symptom_columns rest
             (query_vector[index symptom_columns (symptom_clean symptom) := 1])
      else build_query symptom_columns rest query_vector)"

definition query_of :: "pystr list \<Rightarrow> pystr list \<Rightarrow> real list" where
  "query_of symptom_columns symptoms_list =
     build_query symptom_columns symptoms_list (replicate (length symptom_columns) 0)"

definition predict_disease_from_symptoms ::
    "pystr list \<Rightarrow> aug_df option \<Rightarrow> (pystr \<times> real \<times> real list) option" where
  "predict_disease_from_symptoms symptoms_list augmented_df =
     (case augmented_df of
        None \<Rightarrow> None
      | Some df \<Rightarrow>
          let query_vector = query_of (aug_columns df) symptoms_list;
              disease_matrix = map snd (aug_rows df)
          in (case cosine_similarity query_vector disease_matrix of
                Inl e \<Rightarrow> None
              | Inr similarities_scores \<Rightarrow>
                  if length similarities_scores > 0
                  then let best_idx = argmax similarities_scores
                       in Some (fst (aug_rows df ! best_idx),
                                similarities_scores ! best_idx,
                                disease_matrix ! best_idx)
                  else None))"

section \<open>The disease knowledge aggregation\<close>

text \<open>A truth test of Python on a string (\<open>if s\<close>) is \<open>s \<noteq> []\<close>.\<close>

definition aug_symptoms :: "aug_df \<Rightarrow> pystr \<Rightarrow> pystr list" where
  "aug_symptoms df disease_clean =
     (case filter (\<lambda>row. clean_name (fst row) = disease_clean) (aug_rows df) of
        [] \<Rightarrow> []
      | aug_match # _ \<Rightarrow>
          map (\<lambda>(col, v). replace 95 32 col)
            (filter (\<lambda>(col, v). v = 1) (zip (aug_columns df) (snd aug_match))))"

definition catalogue_symptoms :: "text_df \<Rightarrow> pystr \<Rightarrow> pystr list" where
  "catalogue_symptoms df disease_clean =
     (case filter (\<lambda>row. clean_name (fst row) = disease_clean) (td_rows df) of
        [] \<Rightarrow> []
      | symptom_match # _ \<Rightarrow>
          concat (map (\<lambda>(col, v).
                    case v of
                      NaN \<Rightarrow> []
                    | Text t \<Rightarrow>
                        if startswith col (str ''Symptom_'') \<and> strip t \<noteq> []
                           \<and> strip t \<noteq> str ''nan''
                        then [strip t] else [])
                  (zip (td_columns df) (snd symptom_match))))"

definition get_disease_symptoms ::
    "pystr \<Rightarrow> text_df option \<Rightarrow> aug_df option \<Rightarrow> pystr list" where
  "get_disease_symptoms disease_name symptoms_df augmented_df =
     (if disease_name = [] then []
      else
        let disease_clean = strip (lower disease_name);
            found = (case augmented_df of
                       None \<Rightarrow> []
                     | Some df \<Rightarrow> if aug_clean df then aug_symptoms df disease_clean else [])
        in if found \<noteq> [] then found
           else case symptoms_df of
                  None \<Rightarrow> found
                | Some df \<Rightarrow>
                    if td_clean df then catalogue_symptoms df disease_clean else found)"

definition precaution_columns :: "pystr list" where
  "precaution_columns =
     [str ''Precaution_1'', str ''Precaution_2'', str ''Precaution_3'', str ''Precaution_4'']"

definition get_disease_precautions :: "pystr \<Rightarrow> text_df option \<Rightarrow> pystr list" where
  "get_disease_precautions disease_name precautions_df =
     (case precautions_df of
        None \<Rightarrow> []
      | Some df \<Rightarrow>
          if disease_name = [] then []
          else if \<not> td_clean df then []
          else
            (case filter (\<lambda>row. clean_name (fst row) = strip (lower disease_name))
                    (td_rows df) of
               [] \<Rightarrow> []
             | prec_match # _ \<Rightarrow>
                 concat (map (\<lambda>col.
                           case map_of (zip (td_columns df) (snd prec_match)) col of
                             Some (Text t) \<Rightarrow>
                               if strip t \<noteq> [] \<and> strip t \<noteq> str ''nan'' then [strip t] else []
                           | _ \<Rightarrow> [])
                         precaution_columns)))"

text \<open>
  \<open>Series.str.contains(pat, na=False)\<close> compiles \<open>pat\<close> as a regular expression. A
  pattern without any of the special characters of \<open>re\<close> is a literal: it is found in a
  text exactly when it occurs there as a substring. For any other pattern the compiler
  of \<open>re\<close> is a parameter \<open>rx\<close>: \<open>rx pat\<close> is \<open>None\<close> when \<open>re.compile\<close> raises, and
  otherwise the test whether the pattern is found in a text.
\<close>

type_synonym re_compiler = "pystr \<Rightarrow> (pystr \<Rightarrow> bool) option"

definition re_special :: "nat \<Rightarrow> bool" where
  "re_special c = (c \<in> set (str ''.^$*+?{}[]|()'') \<or> c = 92)"

definition compile_contains :: "re_compiler \<Rightarrow> pystr \<Rightarrow> (pystr \<Rightarrow> bool) option" where
  "compile_contains rx pat =
     (if list_ex re_special pat then rx pat else Some (\<lambda>text. contains text pat))"

text \<open>The body of the \<open>try\<close> of \<open>get_disease_description\<close>; the bare \<open>except\<close> around it
  turns every error into the result \<open>None\<close>.\<close>

definition description_lookup ::
    "re_compiler \<Rightarrow> pystr \<Rightarrow> faq_df \<Rightarrow> py_error + cell option" where
  "description_lookup rx disease_clean df =
     (if faq_clean df
      then case compile_contains rx disease_clean of
             None \<Rightarrow> Inl ReError
           | Some found_in \<Rightarrow>
               (case filter (\<lambda>row. case question_clean_of (fst row) of
                                       Text t \<Rightarrow> found_in t | NaN \<Rightarrow> False) (faq_rows df) of
                  [] \<Rightarrow> Inr None
                | relevant_qa # _ \<Rightarrow> Inr (Some (snd relevant_qa)))
      else Inr None)"

definition get_disease_description ::
    "re_compiler \<Rightarrow> pystr \<Rightarrow> faq_df option \<Rightarrow> cell option" where
  "get_disease_description rx disease_name faq =
     (case faq of
        None \<Rightarrow> None
      | Some df \<Rightarrow>
          if disease_name = [] then None
          else (case description_lookup rx (strip (lower disease_name)) df of
                  Inl e \<Rightarrow> None
                | Inr answer \<Rightarrow> answer))"

section \<open>process_user_input\<close>

record response =
  rtype :: "intent option"
  disease :: "pystr option"
  confidence :: real
  symptoms :: "pystr list"
  precautions :: "pystr list"
  description :: "cell option"
  faq_question :: "cell option"
  faq_answer :: "cell option"

definition initial_response :: response where
  "initial_response =
     \<lparr>rtype = None, disease = None, confidence = 0, symptoms = [], precautions = [],
      description = None, faq_question = None, faq_answer = None\<rparr>"

text \<open>The pattern \<open>(?:symptoms|signs|causes|treatment|of|for)\s+([^?]+)\<close>.\<close>

definition disease_pattern :: regex where
  "disease_pattern =
     Cat (Alt (Lit (str ''symptoms'')) (Alt (Lit (str ''signs'')) (Alt (Lit (str ''causes''))
            (Alt (Lit (str ''treatment'')) (Alt (Lit (str ''of'')) (Lit (str ''for'')))))))
         (Cat (Plus Space) (Group (Plus NotQuestionMark)))"

text \<open>\<open>disease_match.group(1).strip()\<close>, when the pattern is found.\<close>

definition potential_disease :: "pystr \<Rightarrow> pystr option" where
  "potential_disease user_input =
     (case re_search disease_pattern (lower user_input) of
        Some (Some g) \<Rightarrow> Some (strip g)
      | _ \<Rightarrow> None)"

definition faq_fallback :: "pystr \<Rightarrow> faq_df option \<Rightarrow> response \<Rightarrow> response" where
  "faq_fallback user_input faq r =
     (case find_question_answer user_input faq of
        None \<Rightarrow> r
      | Some faq_match \<Rightarrow>
          r\<lparr>faq_question := Some (fst faq_match), faq_answer := Some (snd faq_match)\<rparr>)"

definition process_user_input ::
    "re_compiler \<Rightarrow> pystr \<Rightarrow> text_df option \<Rightarrow> text_df option \<Rightarrow> faq_df option
       \<Rightarrow> aug_df option \<Rightarrow> response" where
  "process_user_input rx user_input precautions_df symptoms_df faq augmented_df =
     (if user_input = [] then initial_response
      else
        let input_type = classify_input_type user_input;
            r = initial_response\<lparr>rtype := Some input_type\<rparr>
        in case input_type of
             Question \<Rightarrow>
               (case potential_disease user_input of
                  None \<Rightarrow> faq_fallback user_input faq r
                | Some pd \<Rightarrow>
                    if (contains (lower user_input) (str ''symptom'')
                          \<or> contains (lower user_input) (str ''sign''))
                       \<and> get_disease_symptoms pd symptoms_df augmented_df \<noteq> []
                    then r\<lparr>rtype := Some Disease, disease := Some pd, confidence := 95 / 100,
                           symptoms := get_disease_symptoms pd symptoms_df augmented_df,
                           precautions := get_disease_precautions pd precautions_df,
                           description := get_disease_description rx pd faq\<rparr>
                    else faq_fallback user_input faq r)
           | Symptoms \<Rightarrow>
               (case predict_disease_from_symptoms
                       (map strip (str_split_sep 44 user_input)) augmented_df of
                  None \<Rightarrow> r
                | Some (disease_name, score, disease_vector) \<Rightarrow>
                    r\<lparr>disease := Some disease_name, confidence := score,
                      symptoms := get_disease_symptoms disease_name symptoms_df augmented_df,
                      precautions := get_disease_precautions disease_name precautions_df,
                      description := get_disease_description rx disease_name faq\<rparr>)
           | Disease \<Rightarrow>
               r\<lparr>disease := Some user_input, confidence := 95 / 100,
                 symptoms := get_disease_symptoms user_input symptoms_df augmented_df,
                 precautions := get_disease_precautions user_input precautions_df,
                 description := get_disease_description rx user_input faq\<rparr>)"

section \<open>Example inputs\<close>

text \<open>A compiler of \<open>re\<close> that rejects every pattern it is asked about (patterns
  without special characters never reach it).\<close>

definition no_special_patterns :: re_compiler where
  "no_special_patterns pat = None"

text \<open>A small augmented matrix, preprocessed: three symptom columns, three diseases,
  the first two with the same row.\<close>

definition example_matrix :: aug_df where
  "example_matrix =
     \<lparr>aug_columns = [str ''fever'', str ''cough'', str ''increased_thirst''],
      aug_rows = [(str ''Flu'', [1, 0, 0]), (str ''Cold'', [1, 0, 0]),
                  (str ''Diabetes'', [0, 0, 1])],
      aug_clean = True\<rparr>"


text \<open>A disease whose row has exactly three symptoms.\<close>

definition flu_matrix :: aug_df where
  "flu_matrix =
     \<lparr>aug_columns = [str ''fever'', str ''cough'', str ''chills''],
      aug_rows = [(str ''Flu'', [1, 1, 1])],
      aug_clean = True\<rparr>"

text \<open>A small FAQ table, preprocessed; the last two rows have the same question.\<close>

definition example_faq :: faq_df where
  "example_faq =
     \<lparr>faq_rows = [(Text (str ''What is fever''), Text (str ''answer 1'')),
                  (Text (str ''what is fever symptom''), Text (str ''answer 2'')),
                  (Text (str ''what is fever symptom''), Text (str ''answer 3''))],
      faq_clean = True\<rparr>"



section \<open>What the claims speak of\<close>

text \<open>\<open>k\<close> is the first position of the maximum of \<open>xs\<close>.\<close>

definition is_first_maximum :: "real list \<Rightarrow> nat \<Rightarrow> bool" where
  "is_first_maximum xs k =
     (k < length xs \<and> (\<forall>j < length xs. xs ! j \<le> xs ! k) \<and> (\<forall>j < k. xs ! j < xs ! k))"




definition ascii_faq :: "faq_df \<Rightarrow> bool" where
  "ascii_faq df = list_all (\<lambda>row. case fst row of Text t \<Rightarrow> ascii t | NaN \<Rightarrow> True) (faq_rows df)"




section \<open>Evaluation\<close>

lemmas str_eval = str_def lower_def lower_cp_def lower_special_def upper_def upper_cp_def
  upper_special_def strip_def isspace_def str_split_def str_split_sep_def startswith_def
  replace_def

lemmas classify_eval = classify_input_type_def is_question_def classify_patterns_def
  re_matches_def Let_def

section \<open>Properties of classify_input_type\<close>

text \<open>
  C3, as stated, fails: a whitespace-only input is classified \<open>disease\<close>, not
  \<open>question\<close> (the test for emptiness comes before the input is stripped), and for
  the empty input \<open>process_user_input\<close> returns before it classifies, so the intent of
  the response is \<open>None\<close>.
\<close>

theorem C3_blank_and_empty_counterexample:
  "classify_input_type (str ''   '') = Disease \<and>
   rtype (process_user_input no_special_patterns (str []) None None None None) = None"
  by (simp add: str_eval classify_eval process_user_input_def initial_response_def)

text \<open>
  C3, amended: for the empty input \<open>classify_input_type\<close> returns \<open>question\<close>, and
  \<open>process_user_input\<close> returns the initial response as it is, whatever the tables:
  no intent, no disease, confidence 0, and every optional field none or empty.
\<close>

theorem C3_empty_input:
  "classify_input_type [] = Question \<and>
   process_user_input rx [] precautions_df symptoms_df faq augmented_df =
     \<lparr>rtype = None, disease = None, confidence = 0, symptoms = [], precautions = [],
      description = None, faq_question = None, faq_answer = None\<rparr>"
  by (simp add: classify_input_type_def process_user_input_def initial_response_def)

theorem C3_empty_input_witness:
  "classify_input_type [] = Question \<and>
   process_user_input no_special_patterns [] None None None None =
     \<lparr>rtype = None, disease = None, confidence = 0, symptoms = [], precautions = [],
      description = None, faq_question = None, faq_answer = None\<rparr>"
  using C3_empty_input [of no_special_patterns None None None None] by simp

text \<open>
  C4, as stated, fails: \<open>fever, cough?\<close> has a comma, two words and matches no question
  pattern, yet it is classified \<open>question\<close>, because the question mark is tested first.
\<close>

theorem C4_question_mark_counterexample:
  "44 \<in> set (str ''fever, cough?'') \<and> length (str_split (str ''fever, cough?'')) \<le> 5
   \<and> \<not> is_question (str ''fever, cough?'')
   \<and> classify_input_type (str ''fever, cough?'') \<noteq> Symptoms"
  by (simp add: str_eval classify_eval)

text \<open>
  C4, amended: every input that contains a comma and no question mark, has at most 5
  whitespace-separated words and matches none of the question patterns is classified
  \<open>symptoms\<close>.
\<close>

theorem C4_comma_short_is_symptoms:
  assumes "44 \<in> set user_input" and "length (str_split user_input) \<le> 5"
    and "\<not> is_question user_input" and "63 \<notin> set user_input"
  shows "classify_input_type user_input = Symptoms"
proof -
  from assms(1) have "user_input \<noteq> []" by auto
  with assms show ?thesis by (simp add: classify_input_type_def)
qed

theorem C4_comma_short_is_symptoms_witness:
  "44 \<in> set (str ''fever, headache, cough'')
   \<and> length (str_split (str ''fever, headache, cough'')) \<le> 5
   \<and> \<not> is_question (str ''fever, headache, cough'')
   \<and> 63 \<notin> set (str ''fever, headache, cough'')
   \<and> classify_input_type (str ''fever, headache, cough'') = Symptoms"
proof -
  have h1: "44 \<in> set (str ''fever, headache, cough'')"
    by (simp add: str_eval)
  have h2: "length (str_split (str ''fever, headache, cough'')) \<le> 5"
    by (simp add: str_eval)
  have h3: "\<not> is_question (str ''fever, headache, cough'')"
    by (simp add: str_eval classify_eval)
  have h4: "63 \<notin> set (str ''fever, headache, cough'')"
    by (simp add: str_eval)
  from C4_comma_short_is_symptoms [OF h1 h2 h3 h4] h1 h2 h3 h4 show ?thesis by blast
qed

text \<open>
  C7, as stated, fails beyond ASCII: \<open>upper()\<close> turns the long s (U+017F) into \<open>S\<close>,
  which \<open>lower()\<close> turns into \<open>s\<close>, so the upper-cased input matches the pattern
  \<open>why (is|are)\<close> and the input itself does not.
\<close>

theorem C7_long_s_counterexample:
  "classify_input_type (str ''why i'' @ [383]) \<noteq>
   classify_input_type (upper (str ''why i'' @ [383]))"
  by (simp add: str_eval classify_eval)

lemma upper_cp_ascii: "c < 128 \<Longrightarrow> upper_cp c = [ascii_upper c]"
  by (simp add: upper_cp_def upper_special_def ascii_upper_def)

lemma upper_ascii: "ascii s \<Longrightarrow> upper s = map ascii_upper s"
  by (induction s) (simp_all add: ascii_def upper_def upper_cp_ascii)

lemma lower_cp_ascii_upper: "c < 128 \<Longrightarrow> lower_cp (ascii_upper c) = lower_cp c"
  by (auto simp add: lower_cp_def lower_special_def ascii_upper_def)

lemma lower_upper_ascii: "ascii s \<Longrightarrow> lower (upper s) = lower s"
  by (induction s) (simp_all add: ascii_def upper_ascii lower_def lower_cp_ascii_upper)

lemma isspace_ascii_upper: "isspace (ascii_upper c) = isspace c"
  by (auto simp add: isspace_def ascii_upper_def)

lemma ascii_upper_eq_mark:
  "(ascii_upper c = 63) = (c = 63)" "(ascii_upper c = 44) = (c = 44)"
  by (auto simp add: ascii_upper_def)

lemma mem_map_ascii_upper:
  "(63 \<in> set (map ascii_upper s)) = (63 \<in> set s)"
  "(44 \<in> set (map ascii_upper s)) = (44 \<in> set s)"
  by (induction s) (auto simp add: ascii_upper_eq_mark)

text \<open>The number of words depends only on where the whitespace is.\<close>

lemma split_ws_ascii_upper:
  "(w = []) = (w' = []) \<Longrightarrow>
     length (split_ws w (map ascii_upper s)) = length (split_ws w' s)"
proof (induction s arbitrary: w w')
  case Nil
  then show ?case by simp
next
  case (Cons c s)
  show ?case
  proof (cases "isspace c")
    case True
    then show ?thesis
      using Cons.prems Cons.IH [of "[]" "[]"] by (simp add: isspace_ascii_upper)
  next
    case False
    then show ?thesis
      using Cons.IH [of "w @ [ascii_upper c]" "w' @ [c]"] by (simp add: isspace_ascii_upper)
  qed
qed

text \<open>
  C7, amended: for every ASCII input string \<open>s\<close>, \<open>classify_input_type(s.upper())\<close>
  equals \<open>classify_input_type(s)\<close>.
\<close>

theorem C7_case_insensitive_ascii:
  assumes "ascii s"
  shows "classify_input_type (upper s) = classify_input_type s"
proof -
  have u: "upper s = map ascii_upper s" using assms by (rule upper_ascii)
  have q: "is_question (upper s) = is_question s"
    using assms by (simp add: is_question_def lower_upper_ascii)
  have n: "length (str_split (upper s)) = length (str_split s)"
    unfolding u str_split_def by (rule split_ws_ascii_upper) simp
  have e: "(upper s = []) = (s = [])" unfolding u by simp
  show ?thesis
    unfolding classify_input_type_def Let_def q n e
    unfolding u mem_map_ascii_upper ..
qed

theorem C7_case_insensitive_ascii_witness:
  "ascii (str ''What Is flu'') \<and>
   classify_input_type (upper (str ''What Is flu'')) = classify_input_type (str ''What Is flu'')"
proof -
  have h: "ascii (str ''What Is flu'')" by (simp add: ascii_def str_def)
  from C7_case_insensitive_ascii [OF h] h show ?thesis by simp
qed

section \<open>Properties of predict_disease_from_symptoms\<close>

lemma length_build_query: "length (build_query cols xs qv) = length qv"
  by (induction xs arbitrary: qv) simp_all

lemma build_query_nth:
  "i < length qv \<Longrightarrow>
   build_query cols xs qv ! i =
     (if \<exists>x \<in> set xs. symptom_clean x \<in> set cols \<and> index cols (symptom_clean x) = i
      then 1 else qv ! i)"
proof (induction xs arbitrary: qv)
  case Nil
  then show ?case by simp
next
  case (Cons x xs)
  then show ?case by (auto simp add: nth_list_update)
qed

lemma build_query_set:
  assumes "set xs = set ys"
  shows "build_query cols xs qv = build_query cols ys qv"
  by (rule nth_equalityI) (simp_all add: length_build_query build_query_nth assms)

text \<open>
  C10: the matcher does not depend on the order or the multiplicity of the symptoms. Two
  symptom lists with the same elements (a permutation, or a list with repetitions) give
  the same result (disease, score and vector, or none), for every matrix or none.
\<close>

theorem C10_order_and_multiplicity: 
  assumes "set xs = set ys"
  shows "predict_disease_from_symptoms xs augmented_df = predict_disease_from_symptoms ys augmented_df"
proof -
  have q: "\<And>cols. query_of cols xs = query_of cols ys"
    by (simp add: query_of_def build_query_set [OF assms])
  show ?thesis unfolding predict_disease_from_symptoms_def q ..
qed

theorem C10_order_and_multiplicity_witness:
  "set [str ''fever'', str ''cough''] = set [str ''cough'', str ''fever'', str ''cough''] \<and>
   predict_disease_from_symptoms [str ''fever'', str ''cough''] (Some example_matrix) =
   predict_disease_from_symptoms [str ''cough'', str ''fever'', str ''cough''] (Some example_matrix)"
proof -
  have h: "set [str ''fever'', str ''cough''] = set [str ''cough'', str ''fever'', str ''cough'']"
    by auto
  from C10_order_and_multiplicity [OF h] h show ?thesis by blast
qed

section \<open>Evaluation of doubles\<close>

lemma binade_numeral:
  "binade (numeral k) x =
     (if 2 \<le> x then binade (pred_numeral k) (x / 2) + 1
      else if x < 1 then binade (pred_numeral k) (x * 2) - 1
      else 0)"
  by (simp add: numeral_eq_Suc)

lemmas fl_eval = fl_def binade_numeral pow2_def round_half_even_def

lemmas double_ops = fadd_def fmul_def fdiv_def fsqrt_def

lemma fl_0: "fl 0 = 0" by (simp add: fl_def)
lemma fl_1: "fl 1 = 1" by (simp add: fl_eval)

lemma round_half_even_eq:
  assumes "of_int n - 1 / 2 < x" and "x < of_int n + 1 / 2"
  shows "round_half_even x = n"
proof -
  have "\<lfloor>x\<rfloor> = n \<or> \<lfloor>x\<rfloor> = n - 1" using assms by linarith
  then show ?thesis
  proof
    assume f: "\<lfloor>x\<rfloor> = n"
    then have "of_int n \<le> x" by linarith
    with assms f show ?thesis by (simp add: round_half_even_def)
  next
    assume f: "\<lfloor>x\<rfloor> = n - 1"
    then have "x < of_int n" by linarith
    with assms f show ?thesis by (auto simp add: round_half_even_def)
  qed
qed

lemma sqrt_between:
  assumes "0 \<le> a" and "a * a < x" and "x < b * b" and "0 \<le> b"
  shows "a < sqrt x \<and> sqrt x < b"
proof -
  have "sqrt (a * a) < sqrt x" using assms(2) by (simp only: real_sqrt_less_iff)
  moreover have "sqrt x < sqrt (b * b)" using assms(3) by (simp only: real_sqrt_less_iff)
  ultimately show ?thesis using assms(1,4) by simp
qed

lemma fsqrt_3: "fsqrt 3 = 3900231685776981 / 2251799813685248"
proof -
  have b: "1 < sqrt 3 \<and> sqrt 3 < 2"
    by (rule sqrt_between) simp_all
  then have e: "binade 1100 \<bar>sqrt 3\<bar> = 0" by (simp add: binade_numeral)
  have r: "7800463371553961 + 1 / 2 < sqrt 3 * 4503599627370496 \<and> sqrt 3 * 4503599627370496 < 7800463371553962 + 1 / 2"
  proof -
    have "(7800463371553961 + 1 / 2) / 4503599627370496 < sqrt 3 \<and> sqrt 3 < (7800463371553962 + 1 / 2) / 4503599627370496"
      by (rule sqrt_between) simp_all
    then show ?thesis by (simp add: field_simps)
  qed
  have "round_half_even (sqrt 3 * 4503599627370496) = 7800463371553962"
    by (rule round_half_even_eq) (use r in simp_all)
  with e b show ?thesis by (simp add: fsqrt_def fl_def pow2_def)
qed

lemma fsqrt_0: "fsqrt 0 = 0" by (simp add: fsqrt_def fl_0)
lemma fsqrt_1: "fsqrt 1 = 1" by (simp add: fsqrt_def fl_1)
lemma fsqrt_9: "fsqrt 9 = 3"
proof -
  have "sqrt 9 = sqrt (3 * 3)" by simp
  also have "\<dots> = \<bar>3\<bar>" by (rule real_sqrt_abs2)
  finally show ?thesis by (simp add: fsqrt_def fl_eval)
qed

lemmas double_eval = fadd_def fmul_def fdiv_def fl_eval fsqrt_0 fsqrt_1 fsqrt_3 fsqrt_9

lemma cosine_ones_3:
  "cosine [1, 1, 1] [1, 1, 1] = 4503599627370497 / 4503599627370496"
  by (simp add: cosine_def normalize_def l2_norm_def dot_def double_eval)



section \<open>Properties of the matcher\<close>





lemma index_less: "x \<in> set xs \<Longrightarrow> index xs x < length xs"
  by (induction xs) auto




lemmas matrix_eval = symptom_clean_def query_of_def







lemma l2_norm_zero: "l2_norm (replicate n 0) = 0"
proof -
  have "fold (\<lambda>x acc. fadd acc (fmul x x)) (replicate n 0) 0 = 0"
    by (induction n) (simp_all add: fadd_def fmul_def fl_0)
  then show ?thesis by (simp add: l2_norm_def fsqrt_0)
qed

lemma normalize_zero: "normalize (replicate n 0) = replicate n 0"
  by (simp add: normalize_def l2_norm_zero fdiv_def fl_0)

lemma dot_zero: "dot (replicate n 0) v = 0"
proof -
  have "fold (\<lambda>(x, y) acc. fadd acc (fmul x y)) (zip (replicate n 0) v) 0 = 0"
  proof (induction n arbitrary: v)
    case 0
    then show ?case by simp
  next
    case (Suc n)
    then show ?case by (cases v) (simp_all add: fadd_def fmul_def fl_0)
  qed
  then show ?thesis by (simp add: dot_def)
qed

lemma cosine_zero: "cosine (replicate n 0) v = 0"
  by (simp add: cosine_def normalize_zero dot_zero)

lemma build_query_unmatched:
  "\<forall>x \<in> set xs. symptom_clean x \<notin> set cols \<Longrightarrow> build_query cols xs qv = qv"
  by (induction xs arbitrary: qv) simp_all

lemma argmax_from_zeros: "argmax_from bi 0 i (replicate n 0) = bi"
  by (induction n arbitrary: i) simp_all

lemma argmax_zeros: "argmax (replicate n 0) = 0"
  by (cases n) (simp_all add: argmax_def argmax_from_zeros)

lemma scores_zero:
  "map (cosine (replicate n 0)) (map snd rows) = replicate (length rows) 0"
  by (induction rows) (simp_all add: cosine_zero)

text \<open>
  C1, as stated, fails: when no input symptom is a column of the matrix, the query vector
  is all zeros, every score is 0, and the matcher returns the first row of the table
  with score 0.
\<close>

theorem C1_zero_query_counterexample:
  "query_of (aug_columns example_matrix) [str ''headache''] = [0, 0, 0] \<and>
   predict_disease_from_symptoms [str ''headache''] (Some example_matrix) =
     Some (str ''Flu'', 0, [1, 0, 0])"
proof -
  have q: "query_of (aug_columns example_matrix) [str ''headache''] = [0, 0, 0]"
    by (simp add: example_matrix_def matrix_eval str_eval)
  have c0: "\<And>v. cosine [0, 0, 0] v = 0"
    using cosine_zero [of 3] by (simp add: numeral_3_eq_3)
  have "predict_disease_from_symptoms [str ''headache''] (Some example_matrix) =
     Some (str ''Flu'', 0, [1, 0, 0])"
    unfolding predict_disease_from_symptoms_def
    by (simp add: q cosine_similarity_def)
       (simp add: example_matrix_def c0 argmax_def)
  with q show ?thesis by simp
qed

text \<open>
  C1, amended: without a matrix the matcher returns no result; when none of the ASCII
  input symptoms matches a column of a matrix that has at least one row and one symptom
  column (the column names distinct), it returns the first row of the table, with
  score 0.
\<close>

theorem C1_no_matrix_or_zero_query:
  "predict_disease_from_symptoms symptoms_list None = None \<and>
   (list_all ascii symptoms_list
      \<and> (\<forall>x \<in> set symptoms_list. symptom_clean x \<notin> set (aug_columns df))
      \<and> aug_rows df \<noteq> [] \<and> aug_columns df \<noteq> [] \<and> distinct (aug_columns df) \<longrightarrow>
    predict_disease_from_symptoms symptoms_list (Some df) =
      Some (fst (hd (aug_rows df)), 0, snd (hd (aug_rows df))))"
proof (intro conjI impI)
  show "predict_disease_from_symptoms symptoms_list None = None"
    by (simp add: predict_disease_from_symptoms_def)
next
  assume a: "list_all ascii symptoms_list
      \<and> (\<forall>x \<in> set symptoms_list. symptom_clean x \<notin> set (aug_columns df))
      \<and> aug_rows df \<noteq> [] \<and> aug_columns df \<noteq> [] \<and> distinct (aug_columns df)"
  let ?n = "length (aug_columns df)"
  have q: "query_of (aug_columns df) symptoms_list = replicate ?n 0"
    using a by (simp add: query_of_def build_query_unmatched)
  have s: "map (cosine (replicate ?n 0)) (map snd (aug_rows df)) = replicate (length (aug_rows df)) 0"
    by (rule scores_zero)
  have cs: "cosine_similarity (query_of (aug_columns df) symptoms_list) (map snd (aug_rows df))
      = Inr (replicate (length (aug_rows df)) 0)"
    unfolding q cosine_similarity_def s using a by simp
  have z: "replicate (length (aug_rows df)) (0::real) ! 0 = 0" using a by simp
  show "predict_disease_from_symptoms symptoms_list (Some df) =
      Some (fst (hd (aug_rows df)), 0, snd (hd (aug_rows df)))"
    using a z
    by (simp add: predict_disease_from_symptoms_def Let_def cs argmax_zeros hd_conv_nth
          del: replicate.simps replicate_Suc)
qed

theorem C1_no_matrix_or_zero_query_witness:
  "predict_disease_from_symptoms [str ''headache''] None = None \<and>
   list_all ascii [str ''headache''] \<and>
   symptom_clean (str ''headache'') \<notin> set (aug_columns example_matrix) \<and>
   aug_rows example_matrix \<noteq> [] \<and> aug_columns example_matrix \<noteq> [] \<and>
   distinct (aug_columns example_matrix) \<and>
   predict_disease_from_symptoms [str ''headache''] (Some example_matrix) =
     Some (str ''Flu'', 0, [1, 0, 0])"
proof -
  have h: "\<forall>x \<in> set [str ''headache'']. symptom_clean x \<notin> set (aug_columns example_matrix)"
    by (simp add: example_matrix_def matrix_eval str_eval)
  have a: "list_all ascii [str ''headache'']" by (simp add: ascii_def str_def)
  have r: "aug_rows example_matrix \<noteq> []" and c: "aug_columns example_matrix \<noteq> []"
    and d: "distinct (aug_columns example_matrix)"
    by (simp_all add: example_matrix_def str_def)
  from C1_no_matrix_or_zero_query [of "[str ''headache'']" example_matrix] h a r c d
  show ?thesis by (simp add: example_matrix_def)
qed

section \<open>Properties of find_question_answer\<close>

lemmas faq_eval = question_score_def faq_score_def faq_patterns_def what_is_are_def
  faq_question_lower_def findall_letters_def re_matches_def Let_def

lemma threshold_pos: "0 < threshold" by (simp add: threshold_def fl_eval)
lemma early_exit_pos: "0 < fl (9 / 10)" by (simp add: fl_eval)

text \<open>
  C9, as stated, fails: the loop stops at the first row that scores above 0.9. For the
  question \<open>what is fever\<close> the rows of the example table score 1.2, 1.5 and 1.5; the
  last two attain the same highest score, and the first row is returned.
\<close>

theorem C9_early_exit_counterexample:
  "map (\<lambda>row. question_score (str ''what is fever'') (faq_question_lower row))
     (faq_rows example_faq) = [5404319552844595 / 4503599627370496, 3 / 2, 3 / 2] \<and>
   find_question_answer (str ''what is fever'') (Some example_faq) =
     Some (Text (str ''What is fever''), Text (str ''answer 1''))"
proof -
  have s: "map (\<lambda>row. question_score (str ''what is fever'') (faq_question_lower row))
     (faq_rows example_faq) = [5404319552844595 / 4503599627370496, 3 / 2, 3 / 2]"
    by (simp add: example_faq_def faq_eval str_eval double_eval)
  have s0: "question_score (str ''what is fever'')
              (faq_question_lower (Text (str ''What is fever''), Text (str ''answer 1'')))
            = 5404319552844595 / 4503599627370496"
    using arg_cong [OF s, of "\<lambda>xs. xs ! 0"] by (simp add: example_faq_def)
  have l: "faq_question_lower (Text (str ''What is fever''), Text (str ''answer 1'')) \<noteq> []"
    by (simp add: faq_question_lower_def str_eval)
  have "find_question_answer (str ''what is fever'') (Some example_faq) =
     Some (Text (str ''What is fever''), Text (str ''answer 1''))"
    by (simp add: find_question_answer_def example_faq_def s0 l threshold_def)
       (simp add: fl_eval)
  with s show ?thesis by simp
qed

lemma example_scores_symptom_cough:
  "map (\<lambda>row. question_score (str ''symptom cough'') (faq_question_lower row))
     (faq_rows example_faq) =
   [0, 3152519739159347 / 4503599627370496, 3152519739159347 / 4503599627370496]"
  by (simp add: example_faq_def faq_eval str_eval double_eval)

lemma faq_scan_no_better:
  "\<forall>r \<in> set rest. f (faq_question_lower r) \<le> bs \<Longrightarrow> faq_scan f rest (bm, bs) = (bm, bs)"
  by (induction rest) auto

lemma faq_scan_first_best:
  assumes "\<forall>r \<in> set pre. f (faq_question_lower r) < f (faq_question_lower rk)
                         \<and> f (faq_question_lower r) \<le> fl (9 / 10)"
    and "bs < f (faq_question_lower rk)" and "bs \<le> fl (9 / 10)"
    and "faq_question_lower rk \<noteq> []"
    and "\<forall>r \<in> set post. f (faq_question_lower r) \<le> f (faq_question_lower rk)"
  shows "faq_scan f (pre @ rk # post) (bm, bs) = (Some rk, f (faq_question_lower rk))"
  using assms
proof (induction pre arbitrary: bm bs)
  case Nil
  then show ?case by (simp add: faq_scan_no_better)
next
  case (Cons r pre)
  then show ?case by auto
qed

lemma fold_unchanged: "\<forall>x \<in> set xs. \<not> p x \<Longrightarrow> fold (\<lambda>x s. if p x then g s else s) xs s = s"
  by (induction xs) simp_all

lemma question_score_empty: "question_score q [] = 0"
proof -
  have "\<forall>term \<in> set (filter (\<lambda>term. length term > 4) (findall_letters (strip (lower q)))).
          \<not> contains [] term"
    by auto
  then show ?thesis
    by (simp add: question_score_def faq_score_def Let_def str_split_def str_def fold_unchanged)
qed

text \<open>
  C9, amended: for an ASCII question and ASCII FAQ questions, when the highest score
  over the table exceeds the threshold 0.4 and no row before the first row that attains
  it scores above 0.9, \<open>find_question_answer\<close> returns the first row, in table order,
  that attains the highest score. Scores are the doubles the code computes.
\<close>

theorem C9_earliest_best_row:
  assumes "ascii question" and "ascii_faq df"
    and "is_first_maximum
             (map (\<lambda>row. question_score question (faq_question_lower row)) (faq_rows df)) k"
    and "question_score question (faq_question_lower (faq_rows df ! k)) > threshold"
    and "\<forall>j < k. question_score question (faq_question_lower (faq_rows df ! j)) \<le> fl (9 / 10)"
  shows "find_question_answer question (Some df) = Some (faq_rows df ! k)"
proof -
  let ?f = "question_score question"
  let ?rows = "faq_rows df"
  from assms(3) have k: "k < length ?rows"
    and mx: "\<forall>j < length ?rows. ?f (faq_question_lower (?rows ! j)) \<le> ?f (faq_question_lower (?rows ! k))"
    and fst: "\<forall>j < k. ?f (faq_question_lower (?rows ! j)) < ?f (faq_question_lower (?rows ! k))"
    by (auto simp add: is_first_maximum_def)
  have split: "?rows = take k ?rows @ ?rows ! k # drop (Suc k) ?rows"
    using k by (rule id_take_nth_drop)
  have ne: "faq_question_lower (?rows ! k) \<noteq> []"
    using assms(4) threshold_pos question_score_empty [of question] by auto
  have pre: "\<forall>r \<in> set (take k ?rows). ?f (faq_question_lower r) < ?f (faq_question_lower (?rows ! k))
                         \<and> ?f (faq_question_lower r) \<le> fl (9 / 10)"
  proof
    fix r
    assume "r \<in> set (take k ?rows)"
    then obtain i where "i < k" and "r = ?rows ! i"
      using k by (auto simp add: in_set_conv_nth)
    with fst assms(5)
    show "?f (faq_question_lower r) < ?f (faq_question_lower (?rows ! k))
            \<and> ?f (faq_question_lower r) \<le> fl (9 / 10)"
      by simp
  qed
  have post: "\<forall>r \<in> set (drop (Suc k) ?rows). ?f (faq_question_lower r) \<le> ?f (faq_question_lower (?rows ! k))"
  proof
    fix r
    assume "r \<in> set (drop (Suc k) ?rows)"
    then have "r \<in> set ?rows" by (rule in_set_dropD)
    then obtain i where "i < length ?rows" and "r = ?rows ! i"
      by (auto simp add: in_set_conv_nth)
    with mx show "?f (faq_question_lower r) \<le> ?f (faq_question_lower (?rows ! k))"
      by simp
  qed
  have "faq_scan ?f (take k ?rows @ ?rows ! k # drop (Suc k) ?rows) (None, 0)
          = (Some (?rows ! k), ?f (faq_question_lower (?rows ! k)))"
    using pre _ _ ne post
    by (rule faq_scan_first_best) (use assms(4) threshold_pos early_exit_pos in simp_all)
  then have sc: "faq_scan ?f ?rows (None, 0) = (Some (?rows ! k), ?f (faq_question_lower (?rows ! k)))"
    using split by simp
  have "?rows \<noteq> []" using k by auto
  then show ?thesis using assms(4) by (simp add: find_question_answer_def sc)
qed

theorem C9_earliest_best_row_witness:
  "ascii (str ''symptom cough'') \<and> ascii_faq example_faq \<and>
   is_first_maximum
     (map (\<lambda>row. question_score (str ''symptom cough'') (faq_question_lower row))
        (faq_rows example_faq)) 1 \<and>
   question_score (str ''symptom cough'') (faq_question_lower (faq_rows example_faq ! 1)) > threshold \<and>
   question_score (str ''symptom cough'') (faq_question_lower (faq_rows example_faq ! 0)) \<le> fl (9 / 10) \<and>
   question_score (str ''symptom cough'') (faq_question_lower (faq_rows example_faq ! 2)) =
   question_score (str ''symptom cough'') (faq_question_lower (faq_rows example_faq ! 1)) \<and>
   find_question_answer (str ''symptom cough'') (Some example_faq) =
     Some (Text (str ''what is fever symptom''), Text (str ''answer 2''))"
proof -
  have a: "ascii (str ''symptom cough'')" by (simp add: ascii_def str_def)
  have b: "ascii_faq example_faq" by (simp add: ascii_faq_def example_faq_def ascii_def str_def)
  have m: "is_first_maximum
     (map (\<lambda>row. question_score (str ''symptom cough'') (faq_question_lower row))
        (faq_rows example_faq)) 1"
    unfolding example_scores_symptom_cough by (simp add: is_first_maximum_def less_Suc_eq)
  have s0: "question_score (str ''symptom cough'') (faq_question_lower (faq_rows example_faq ! 0)) = 0"
    using arg_cong [OF example_scores_symptom_cough, of "\<lambda>xs. xs ! 0"]
    by (simp add: example_faq_def)
  have s1: "question_score (str ''symptom cough'') (faq_question_lower (faq_rows example_faq ! 1))
      = 3152519739159347 / 4503599627370496"
    using arg_cong [OF example_scores_symptom_cough, of "\<lambda>xs. xs ! 1"]
    by (simp add: example_faq_def)
  have s2: "question_score (str ''symptom cough'') (faq_question_lower (faq_rows example_faq ! 2))
      = 3152519739159347 / 4503599627370496"
    using arg_cong [OF example_scores_symptom_cough, of "\<lambda>xs. xs ! 2"]
    by (simp add: example_faq_def)
  have t: "question_score (str ''symptom cough'') (faq_question_lower (faq_rows example_faq ! 1)) > threshold"
    unfolding s1 by (simp add: threshold_def fl_eval)
  have e0: "question_score (str ''symptom cough'') (faq_question_lower (faq_rows example_faq ! 0)) \<le> fl (9 / 10)"
    unfolding s0 using early_exit_pos by simp
  have e: "\<forall>j < 1. question_score (str ''symptom cough'') (faq_question_lower (faq_rows example_faq ! j)) \<le> fl (9 / 10)"
    using e0 by simp
  have r: "find_question_answer (str ''symptom cough'') (Some example_faq) =
     Some (Text (str ''what is fever symptom''), Text (str ''answer 2''))"
    using C9_earliest_best_row [OF a b m t e] by (simp add: example_faq_def)
  from a b m t e0 s1 s2 r show ?thesis by simp
qed

section \<open>Properties of the aggregation and of process_user_input\<close>

lemmas table_eval = get_disease_symptoms_def aug_symptoms_def catalogue_symptoms_def
  get_disease_precautions_def precaution_columns_def get_disease_description_def
  description_lookup_def compile_contains_def re_special_def question_clean_of_def
  clean_name_def

text \<open>
  C2: the input \<open>what are the symptoms of diabetes?\<close> is classified \<open>question\<close>, but
  the pattern of the shortcut matches at \<open>symptoms\<close>, the leftmost keyword, so the
  phrase it extracts is \<open>of diabetes\<close> and not \<open>diabetes\<close>. With a matrix in which
  diabetes has a symptom, the lookup of \<open>of diabetes\<close> finds nothing and the response
  stays a \<open>question\<close> with no disease, confidence 0 and no symptoms.
\<close>

theorem C2_shortcut_extracts_of_diabetes:
  "classify_input_type (str ''what are the symptoms of diabetes?'') = Question \<and>
   potential_disease (str ''what are the symptoms of diabetes?'') = Some (str ''of diabetes'') \<and>
   get_disease_symptoms (str ''diabetes'') None (Some example_matrix) = [str ''increased thirst''] \<and>
   process_user_input no_special_patterns (str ''what are the symptoms of diabetes?'')
       None None None (Some example_matrix) =
     \<lparr>rtype = Some Question, disease = None, confidence = 0, symptoms = [], precautions = [],
      description = None, faq_question = None, faq_answer = None\<rparr>"
proof -
  have a: "classify_input_type (str ''what are the symptoms of diabetes?'') = Question"
    by (simp add: classify_eval str_eval)
  have b: "potential_disease (str ''what are the symptoms of diabetes?'') = Some (str ''of diabetes'')"
    by (simp add: potential_disease_def disease_pattern_def str_eval)
  have c: "get_disease_symptoms (str ''diabetes'') None (Some example_matrix) = [str ''increased thirst'']"
    by (simp add: table_eval example_matrix_def str_eval)
  have d: "get_disease_symptoms (str ''of diabetes'') None (Some example_matrix) = []"
    by (simp add: table_eval example_matrix_def str_eval)
  have e: "find_question_answer (str ''what are the symptoms of diabetes?'') None = None"
    by (simp add: find_question_answer_def)
  have f: "str ''what are the symptoms of diabetes?'' \<noteq> []" by (simp add: str_def)
  show ?thesis
    using a b c d e f by (simp add: process_user_input_def faq_fallback_def initial_response_def)
qed









lemma confidence_off_symptoms_path:
  "classify_input_type user_input \<noteq> Symptoms \<Longrightarrow>
     confidence (process_user_input rx user_input precautions_df symptoms_df faq augmented_df)
       \<in> {0, 95 / 100}"
  by (auto simp add: process_user_input_def initial_response_def faq_fallback_def Let_def
        split: intent.splits option.splits)

lemma flu_query:
  "query_of (aug_columns flu_matrix) (map strip (str_split_sep 44 (str ''fever, cough, chills'')))
     = [1, 1, 1]"
  by (simp add: flu_matrix_def matrix_eval str_eval)

text \<open>
  C8: off the symptoms path the confidence is 0 or 0.95, but on the symptoms path it
  is the computed score, which rounding can take above 1. For the input \<open>fever, cough,
  chills\<close> and a disease with exactly these three symptoms, the query and the row are
  both normalised to three entries 0.5773502691896258, the dot product is
  1.0000000000000002, and that is the confidence of the response.
\<close>

theorem C8_confidence_above_one:
  "classify_input_type (str ''fever, cough, chills'') = Symptoms \<and>
   confidence (process_user_input no_special_patterns (str ''fever, cough, chills'')
                 None None None (Some flu_matrix)) = 4503599627370497 / 4503599627370496 \<and>
   1 < confidence (process_user_input no_special_patterns (str ''fever, cough, chills'')
                     None None None (Some flu_matrix))"
proof -
  have c: "classify_input_type (str ''fever, cough, chills'') = Symptoms"
    by (simp add: classify_eval str_eval)
  have n: "str ''fever, cough, chills'' \<noteq> []" by (simp add: str_def)
  have p: "predict_disease_from_symptoms
             (map strip (str_split_sep 44 (str ''fever, cough, chills''))) (Some flu_matrix)
           = Some (str ''Flu'', 4503599627370497 / 4503599627370496, [1, 1, 1])"
    unfolding predict_disease_from_symptoms_def
    by (simp add: flu_query cosine_similarity_def)
       (simp add: flu_matrix_def cosine_ones_3 argmax_def)
  have "confidence (process_user_input no_special_patterns (str ''fever, cough, chills'')
                 None None None (Some flu_matrix)) = 4503599627370497 / 4503599627370496"
    by (simp add: process_user_input_def c n p initial_response_def)
  with c show ?thesis by simp
qed

end
